theory Spec2Isabelle
  imports Complex_Main
begin

section \<open>Values of the JavaScript program\<close>

text \<open>
  The game core (\<^verbatim>\<open>src/js/gameState.js\<close>, \<^verbatim>\<open>src/js/eventSystem.js\<close>) computes with
  JavaScript numbers that hold integers (days, affection points, yen), so they are
  modelled as \<^typ>\<open>int\<close>; event weights are multiplied by \<^verbatim>\<open>1.2\<close> and are modelled as
  \<^typ>\<open>real\<close>. A property that an object may lack is an \<^typ>\<open>int option\<close>, \<open>None\<close>
  when the property is absent. Every call of \<^verbatim>\<open>Math.random()\<close> is a \<^typ>\<open>real\<close> argument
  of the function that makes the call; the draws that JavaScript can produce are those
  with \<open>0 \<le> r\<close> and \<open>r < 1\<close>.
\<close>

definition truthy :: "int option \<Rightarrow> bool" where
  \<comment> \<open>the value of \<^verbatim>\<open>if (v)\<close> and of \<^verbatim>\<open>!!v\<close>: an absent property and \<open>0\<close> are falsy\<close>
  "truthy v = (case v of None \<Rightarrow> False | Some n \<Rightarrow> n \<noteq> 0)"

definition js_or :: "int option \<Rightarrow> int \<Rightarrow> int" where
  \<comment> \<open>\<^verbatim>\<open>v || d\<close>\<close>
  "js_or v d = (case v of None \<Rightarrow> d | Some n \<Rightarrow> if n = 0 then d else n)"

section \<open>GameState\<close>

record config =
  goal_money :: int
  affection_threshold :: int
  max_days :: int
  bad_end_threshold :: int
  initial_affection :: int
  work_base_income :: int
  work_income_variation :: int
  play_affection_base :: int
  play_affection_variation :: int

text \<open>
  The instance of class \<^verbatim>\<open>GameState\<close> and the plain object that \<^verbatim>\<open>getState\<close> returns and
  \<^verbatim>\<open>setState\<close> accepts carry the same five property names. They are one record type,
  parameterised by the type of the four numeric properties (\<^typ>\<open>int\<close> in the instance,
  \<^typ>\<open>int option\<close> in the plain object, where any of them may be missing) and by the type
  of \<^verbatim>\<open>config\<close>.
\<close>

record ('n, 'c) state_shape =
  day :: 'n
  affection :: 'n
  money :: 'n
  consecutive_none :: 'n
  config :: 'c

type_synonym GameState = "(int, config) state_shape"

text \<open>
  A configuration object given by the caller is a list of key and value pairs, in the
  order of its properties; \<^verbatim>\<open>Object.assign\<close> copies them one by one over the target. Keys
  that no method reads are dropped.
\<close>

type_synonym config_object = "(string \<times> int) list"

type_synonym state_object = "(int option, config_object option) state_shape"

definition default_config :: config where
  "default_config =
     \<lparr>goal_money = 100000, affection_threshold = 70, max_days = 30,
      bad_end_threshold = 10, initial_affection = 30, work_base_income = 5000,
      work_income_variation = 2000, play_affection_base = 5,
      play_affection_variation = 3\<rparr>"

definition assign_property :: "config \<Rightarrow> string \<times> int \<Rightarrow> config" where
  "assign_property c kv =
     (case kv of (k, v) \<Rightarrow>
        if k = ''goal_money'' then c\<lparr>goal_money := v\<rparr>
        else if k = ''affection_threshold'' then c\<lparr>affection_threshold := v\<rparr>
        else if k = ''max_days'' then c\<lparr>max_days := v\<rparr>
        else if k = ''bad_end_threshold'' then c\<lparr>bad_end_threshold := v\<rparr>
        else if k = ''initial_affection'' then c\<lparr>initial_affection := v\<rparr>
        else if k = ''work_base_income'' then c\<lparr>work_base_income := v\<rparr>
        else if k = ''work_income_variation'' then c\<lparr>work_income_variation := v\<rparr>
        else if k = ''play_affection_base'' then c\<lparr>play_affection_base := v\<rparr>
        else if k = ''play_affection_variation'' then c\<lparr>play_affection_variation := v\<rparr>
        else c)"

definition object_assign :: "config \<Rightarrow> config_object \<Rightarrow> config" where
  \<comment> \<open>\<^verbatim>\<open>Object.assign(target, source)\<close>\<close>
  "object_assign target source = foldl assign_property target source"

definition spread_config :: "config \<Rightarrow> config_object" where
  \<comment> \<open>\<^verbatim>\<open>{ ...this.config }\<close>\<close>
  "spread_config c =
     [(''goal_money'', goal_money c), (''affection_threshold'', affection_threshold c),
      (''max_days'', max_days c), (''bad_end_threshold'', bad_end_threshold c),
      (''initial_affection'', initial_affection c),
      (''work_base_income'', work_base_income c),
      (''work_income_variation'', work_income_variation c),
      (''play_affection_base'', play_affection_base c),
      (''play_affection_variation'', play_affection_variation c)]"

definition new_GameState :: "config_object \<Rightarrow> GameState" where
  \<comment> \<open>\<^verbatim>\<open>constructor(config = {})\<close>\<close>
  "new_GameState cfg =
     (let c = object_assign default_config cfg
      in \<lparr>day = 1, affection = initial_affection c, money = 0, consecutive_none = 0,
          config = c\<rparr>)"

record effects =
  affection_delta :: "int option"
  money_delta :: "int option"

definition no_effects :: effects where
  \<comment> \<open>the default \<^verbatim>\<open>eventData = {}\<close>\<close>
  "no_effects = \<lparr>affection_delta = None, money_delta = None\<rparr>"

definition resetConsecutiveNone :: "GameState \<Rightarrow> GameState" where
  "resetConsecutiveNone s = s\<lparr>consecutive_none := 0\<rparr>"

definition applyAction :: "GameState \<Rightarrow> string \<Rightarrow> effects \<Rightarrow> real \<Rightarrow> GameState" where
  \<comment> \<open>\<open>rnd\<close> is the one draw of \<^verbatim>\<open>Math.random()\<close> that the cases play and work make;
      \<^verbatim>\<open>if (eventData.affection_delta)\<close> holds for a present, non-zero delta\<close>
  "applyAction s actionType eventData rnd =
     (let s1 =
        (if actionType = ''play'' then
           (let affectionGain =
                  play_affection_base (config s)
                  + \<lfloor>rnd * of_int (play_affection_variation (config s) * 2 + 1)\<rfloor>
                  - play_affection_variation (config s)
            in resetConsecutiveNone
                 (s\<lparr>affection := min 100 (affection s + max 3 affectionGain)\<rparr>))
         else if actionType = ''work'' then
           (let moneyGain =
                  work_base_income (config s)
                  + \<lfloor>rnd * of_int (work_income_variation (config s) * 2 + 1)\<rfloor>
                  - work_income_variation (config s)
            in resetConsecutiveNone
                 (s\<lparr>money := money s + max 4000 (min 7000 moneyGain)\<rparr>))
         else if actionType = ''none'' then
           s\<lparr>consecutive_none := consecutive_none s + 1\<rparr>
         else s);
         s2 =
        (case affection_delta eventData of
           None \<Rightarrow> s1
         | Some d \<Rightarrow>
             if d = 0 then s1
             else s1\<lparr>affection := max 0 (min 100 (affection s1 + d))\<rparr>);
         s3 =
        (case money_delta eventData of
           None \<Rightarrow> s2
         | Some d \<Rightarrow>
             if d = 0 then s2
             else s2\<lparr>money := max 0 (money s2 + d)\<rparr>)
      in s3)"

definition incrementDay :: "GameState \<Rightarrow> GameState" where
  "incrementDay s = (if day s < max_days (config s) then s\<lparr>day := day s + 1\<rparr> else s)"

definition updateConfig :: "GameState \<Rightarrow> config_object \<Rightarrow> GameState" where
  "updateConfig s newConfig = s\<lparr>config := object_assign (config s) newConfig\<rparr>"

definition getState :: "GameState \<Rightarrow> state_object" where
  "getState s =
     \<lparr>day = Some (day s), affection = Some (affection s), money = Some (money s),
      consecutive_none = Some (consecutive_none s),
      config = Some (spread_config (config s))\<rparr>"

definition setState :: "GameState \<Rightarrow> state_object \<Rightarrow> GameState" where
  "setState s state =
     (let s1 = s\<lparr>day := max 1 (min (max_days (config s)) (js_or (day state) 1))\<rparr>;
          s2 = s1\<lparr>affection :=
                    max 0 (min 100 (js_or (affection state)
                                          (initial_affection (config s1))))\<rparr>;
          s3 = s2\<lparr>money := max 0 (js_or (money state) 0)\<rparr>;
          s4 = s3\<lparr>consecutive_none := max 0 (js_or (consecutive_none state) 0)\<rparr>
      in case config state of
           None \<Rightarrow> s4
         | Some c \<Rightarrow> updateConfig s4 c)"

definition checkEndingCondition :: "GameState \<Rightarrow> string option" where
  \<comment> \<open>\<open>None\<close> is \<^verbatim>\<open>null\<close>: the game goes on\<close>
  "checkEndingCondition s =
     (if consecutive_none s \<ge> bad_end_threshold (config s) then Some ''bad_end''
      else if day s \<ge> max_days (config s) then
        (if affection s \<ge> affection_threshold (config s)
            \<and> money s \<ge> goal_money (config s) then Some ''perfect_end''
         else if money s \<ge> goal_money (config s) then Some ''money_end''
         else if affection s \<ge> affection_threshold (config s) then Some ''affection_end''
         else Some ''normal_end'')
      else None)"

definition validateState :: "GameState \<Rightarrow> bool" where
  "validateState s =
     (day s \<ge> 1 \<and> day s \<le> max_days (config s) \<and>
      affection s \<ge> 0 \<and> affection s \<le> 100 \<and>
      money s \<ge> 0 \<and>
      consecutive_none s \<ge> 0)"

section \<open>EventSystem\<close>

record event = effects +
  event_id :: string
  type :: string
  weight :: real
  event_text :: "string list"
  affection_min :: "int option"
  affection_max :: "int option"
  money_min :: "int option"
  money_max :: "int option"
  day_specific :: "int option"
  special :: bool

record EventSystem =
  events :: "event list"
  isLoaded :: bool

fun subtract_weights :: "real \<Rightarrow> event list \<Rightarrow> event option" where
  \<comment> \<open>the \<^verbatim>\<open>for (const event of adjustedEvents)\<close> loop; \<open>None\<close> when it runs to its end\<close>
  "subtract_weights randomValue [] = None"
| "subtract_weights randomValue (e # es) =
     (if randomValue - weight e \<le> 0 then Some e
      else subtract_weights (randomValue - weight e) es)"

definition selectWeightedRandom :: "event list \<Rightarrow> real \<Rightarrow> event option" where
  \<comment> \<open>\<open>rnd\<close> is the one draw: the uniform index, or the point in the total weight\<close>
  "selectWeightedRandom evs rnd =
     (if length evs = 0 then None
      else
        (let adjustedEvents =
               (if type (hd evs) = ''play'' then
                  map (\<lambda>e. e\<lparr>weight := (if special e then weight e * 1.2 else weight e)\<rparr>)
                      evs
                else evs);
             totalWeight = foldl (\<lambda>sum e. sum + weight e) 0 adjustedEvents
         in if totalWeight \<le> 0 then
              (let i = \<lfloor>rnd * of_nat (length evs)\<rfloor>
               in if 0 \<le> i \<and> i < int (length evs) then Some (evs ! nat i) else None)
            else
              (case subtract_weights (rnd * totalWeight) adjustedEvents of
                 Some e \<Rightarrow> Some e
               | None \<Rightarrow> Some (last adjustedEvents))))"

definition pickEvent :: "EventSystem \<Rightarrow> string \<Rightarrow> int \<Rightarrow> real \<Rightarrow> event option" where
  "pickEvent sys ty d rnd =
     (if \<not> isLoaded sys then None
      else
        (let typeEvents = filter (\<lambda>e. type e = ty) (events sys)
         in if length typeEvents = 0 then None
            else
              (let daySpecificEvents =
                     filter (\<lambda>e. truthy (day_specific e) \<and> day_specific e = Some d)
                            typeEvents
               in if length daySpecificEvents > 0 then
                    selectWeightedRandom daySpecificEvents rnd
                  else
                    selectWeightedRandom
                      (filter (\<lambda>e. \<not> truthy (day_specific e)) typeEvents) rnd)))"

definition getRandomVariation :: "int \<Rightarrow> int \<Rightarrow> int \<Rightarrow> real \<Rightarrow> int" where
  "getRandomVariation base mn mx rnd =
     (if mn = mx then base
      else
        (let actualMin = min mn mx;
             actualMax = max mn mx
         in \<lfloor>rnd * of_int (actualMax - actualMin + 1)\<rfloor> + actualMin))"

definition calculateEventEffects :: "event option \<Rightarrow> real \<Rightarrow> real \<Rightarrow> effects" where
  \<comment> \<open>\<open>rnd_a\<close> is the draw for the affection delta, \<open>rnd_m\<close> the one for the money delta\<close>
  "calculateEventEffects ev rnd_a rnd_m =
     (case ev of
        None \<Rightarrow> \<lparr>affection_delta = Some 0, money_delta = Some 0\<rparr>
      | Some e \<Rightarrow>
          \<lparr>affection_delta =
             Some (getRandomVariation
                     (js_or (affection_delta e) 0)
                     (js_or (affection_min e) (js_or (affection_delta e) 0))
                     (js_or (affection_max e) (js_or (affection_delta e) 0))
                     rnd_a),
           money_delta =
             Some (getRandomVariation
                     (js_or (money_delta e) 0)
                     (js_or (money_min e) (js_or (money_delta e) 0))
                     (js_or (money_max e) (js_or (money_delta e) 0))
                     rnd_m)\<rparr>)"

section \<open>Concrete inputs\<close>

text \<open>States, events and catalogs at which the properties below are evaluated.\<close>

definition idle_on_last_day :: GameState where
  "idle_on_last_day =
     (new_GameState [])\<lparr>day := 30, affection := 100, money := 200000,
                          consecutive_none := 10\<rparr>"

definition thriving_on_last_day :: GameState where
  "thriving_on_last_day =
     (new_GameState [])\<lparr>day := 30, affection := 70, money := 100000\<rparr>"

definition day_29 :: GameState where
  "day_29 = (new_GameState [])\<lparr>day := 29\<rparr>"

definition blank_event :: "string \<Rightarrow> string \<Rightarrow> real \<Rightarrow> event" where
  \<comment> \<open>an event with the given id, type and weight and no optional property\<close>
  "blank_event i ty w =
     \<lparr>affection_delta = None, money_delta = None, event_id = i, type = ty, weight = w,
      event_text = [], affection_min = None, affection_max = None, money_min = None,
      money_max = None, day_specific = None, special = False\<rparr>"

definition pinned_event :: event where
  "pinned_event =
     (blank_event ''pinned'' ''play'' 1)\<lparr>affection_delta := Some 3,
        affection_min := Some 5, affection_max := Some 5\<rparr>"

definition ranged_event :: event where
  "ranged_event =
     (blank_event ''ranged'' ''play'' 1)\<lparr>affection_delta := Some 5,
        affection_min := Some 2, affection_max := Some 8\<rparr>"

definition day_five_catalog :: EventSystem where
  "day_five_catalog =
     \<lparr>events = [blank_event ''play_generic'' ''play'' 5,
                (blank_event ''play_day_5'' ''play'' 5)\<lparr>day_specific := Some 5,
                   special := True\<rparr>,
                (blank_event ''work_day_5'' ''work'' 5)\<lparr>day_specific := Some 5\<rparr>],
      isLoaded = True\<rparr>"

definition stale_save :: state_object where
  "stale_save =
     \<lparr>day = Some 30, affection = Some 50, money = Some 0, consecutive_none = Some 0,
      config = Some [(''max_days'', 10)]\<rparr>"

definition unloved_start :: GameState where
  "unloved_start = new_GameState [(''initial_affection'', 0)]"

definition unloved_default :: GameState where
  "unloved_default = (new_GameState [])\<lparr>affection := 0\<rparr>"

section \<open>Endings\<close>

text \<open>
  C1. Whenever \<open>consecutive_none\<close> has reached \<open>bad_end_threshold\<close>,
  \<open>checkEndingCondition\<close> returns \<open>bad_end\<close>, whatever the day, the affection and the money
  are: the inactivity ending comes before every outcome of the last day.
\<close>

theorem bad_end_preempts:
  "consecutive_none s \<ge> bad_end_threshold (config s) \<Longrightarrow>
   checkEndingCondition s = Some ''bad_end''"
  by (simp add: checkEndingCondition_def)

theorem bad_end_preempts_witness:
  "consecutive_none idle_on_last_day \<ge> bad_end_threshold (config idle_on_last_day)
   \<and> day idle_on_last_day \<ge> max_days (config idle_on_last_day)
   \<and> affection idle_on_last_day \<ge> affection_threshold (config idle_on_last_day)
   \<and> money idle_on_last_day \<ge> goal_money (config idle_on_last_day)
   \<and> checkEndingCondition idle_on_last_day = Some ''bad_end''"
  using bad_end_preempts [of idle_on_last_day]
  by (simp add: idle_on_last_day_def new_GameState_def object_assign_def
      default_config_def)

text \<open>
  C2. Below the inactivity threshold, on or after day \<open>max_days\<close> the ending is
  \<open>perfect_end\<close> when both the affection threshold and the money goal are met, else
  \<open>money_end\<close> when the money goal is met, else \<open>affection_end\<close> when the affection
  threshold is met, else \<open>normal_end\<close>; before day \<open>max_days\<close> there is no ending.
\<close>

theorem day_limit_endings:
  "consecutive_none s < bad_end_threshold (config s) \<Longrightarrow>
   (day s \<ge> max_days (config s) \<longrightarrow>
      checkEndingCondition s =
        (if affection s \<ge> affection_threshold (config s)
            \<and> money s \<ge> goal_money (config s) then Some ''perfect_end''
         else if money s \<ge> goal_money (config s) then Some ''money_end''
         else if affection s \<ge> affection_threshold (config s)
           then Some ''affection_end''
         else Some ''normal_end''))
   \<and> (day s < max_days (config s) \<longrightarrow> checkEndingCondition s = None)"
  by (simp add: checkEndingCondition_def)

theorem day_limit_endings_witness:
  "consecutive_none thriving_on_last_day < bad_end_threshold (config thriving_on_last_day)
   \<and> day thriving_on_last_day \<ge> max_days (config thriving_on_last_day)
   \<and> checkEndingCondition thriving_on_last_day = Some ''perfect_end''
   \<and> consecutive_none day_29 < bad_end_threshold (config day_29)
   \<and> day day_29 < max_days (config day_29)
   \<and> checkEndingCondition day_29 = None"
  using day_limit_endings [of thriving_on_last_day] day_limit_endings [of day_29]
  by (simp add: thriving_on_last_day_def day_29_def new_GameState_def object_assign_def
      default_config_def)

section \<open>Days\<close>

text \<open>
  C9. \<open>incrementDay\<close> adds one to \<open>day\<close> while \<open>day\<close> is below \<open>max_days\<close> and
  leaves it as it is from \<open>max_days\<close> on; no other field changes, and a day within
  \<open>max_days\<close> stays within it.
\<close>

theorem incrementDay_saturates:
  "incrementDay s = s\<lparr>day := (if day s < max_days (config s) then day s + 1 else day s)\<rparr>
   \<and> (day s \<le> max_days (config s) \<longrightarrow>
        day (incrementDay s) \<le> max_days (config s))"
  by (simp add: incrementDay_def)

theorem incrementDay_saturates_witness:
  "day day_29 \<le> max_days (config day_29)
   \<and> day (incrementDay day_29) = 30
   \<and> day (incrementDay (incrementDay day_29)) = 30
   \<and> incrementDay (incrementDay day_29) = day_29\<lparr>day := 30\<rparr>"
  using incrementDay_saturates [of day_29]
    incrementDay_saturates [of "incrementDay day_29"]
  by (simp add: day_29_def new_GameState_def object_assign_def default_config_def)

section \<open>Actions\<close>

text \<open>
  C5. From an affection within \<open>0\<close> and \<open>100\<close>, the action play adds a gain of at
  least \<open>3\<close> before the sum is cut at \<open>100\<close>, whatever the draw is; a present, non-zero
  affection delta of the event is then added and the sum clamped, and the affection that
  results is within \<open>0\<close> and \<open>100\<close>.
\<close>

theorem play_gain_and_range:
  "0 \<le> affection s \<Longrightarrow> affection s \<le> 100 \<Longrightarrow>
   \<exists>gain. 3 \<le> gain
     \<and> affection (applyAction s ''play'' eventData rnd) =
         (case affection_delta eventData of
            None \<Rightarrow> min 100 (affection s + gain)
          | Some d \<Rightarrow>
              if d = 0 then min 100 (affection s + gain)
              else max 0 (min 100 (min 100 (affection s + gain) + d)))
     \<and> 0 \<le> affection (applyAction s ''play'' eventData rnd)
     \<and> affection (applyAction s ''play'' eventData rnd) \<le> 100"
proof -
  assume a: "0 \<le> affection s" "affection s \<le> 100"
  define gain where
    "gain = max 3 (play_affection_base (config s)
                  + \<lfloor>rnd * of_int (play_affection_variation (config s) * 2 + 1)\<rfloor>
                  - play_affection_variation (config s))"
  have g: "3 \<le> gain" by (simp add: gain_def)
  have eq: "affection (applyAction s ''play'' eventData rnd) =
         (case affection_delta eventData of
            None \<Rightarrow> min 100 (affection s + gain)
          | Some d \<Rightarrow>
              if d = 0 then min 100 (affection s + gain)
              else max 0 (min 100 (min 100 (affection s + gain) + d)))"
    by (simp add: applyAction_def resetConsecutiveNone_def gain_def Let_def
        split: option.split)
  have rng: "0 \<le> affection (applyAction s ''play'' eventData rnd)
     \<and> affection (applyAction s ''play'' eventData rnd) \<le> 100"
    unfolding eq using a g by (auto split: option.split)
  from g eq rng show ?thesis by blast
qed

theorem play_gain_and_range_witness:
  "0 \<le> affection (new_GameState []) \<and> affection (new_GameState []) \<le> 100
   \<and> affection (applyAction (new_GameState []) ''play''
         \<lparr>affection_delta = Some 5, money_delta = Some 0\<rparr> (9/10)) = 43
   \<and> (\<exists>gain. 3 \<le> gain
         \<and> affection (applyAction (new_GameState []) ''play''
               \<lparr>affection_delta = Some 5, money_delta = Some 0\<rparr> (9/10))
             = max 0 (min 100 (min 100 (affection (new_GameState []) + gain) + 5)))"
proof -
  have a: "affection (new_GameState []) = 30"
    by (simp add: new_GameState_def object_assign_def default_config_def)
  have v: "affection (applyAction (new_GameState []) ''play''
         \<lparr>affection_delta = Some 5, money_delta = Some 0\<rparr> (9/10)) = 43"
    by (simp add: applyAction_def resetConsecutiveNone_def Let_def new_GameState_def
        object_assign_def default_config_def)
  from play_gain_and_range [of "new_GameState []"
      "\<lparr>affection_delta = Some 5, money_delta = Some 0\<rparr>" "9/10"] a v
  show ?thesis by simp
qed

text \<open>
  C6. From a money that is not negative, the action work adds a gain within \<open>4000\<close> and
  \<open>7000\<close>, whatever the draw is; a present, non-zero money delta of the event is then
  added and the sum cut at \<open>0\<close>, and the money that results is not negative.
\<close>

theorem work_gain_and_range:
  "0 \<le> money s \<Longrightarrow>
   \<exists>gain. 4000 \<le> gain \<and> gain \<le> 7000
     \<and> money (applyAction s ''work'' eventData rnd) =
         (case money_delta eventData of
            None \<Rightarrow> money s + gain
          | Some d \<Rightarrow>
              if d = 0 then money s + gain else max 0 (money s + gain + d))
     \<and> 0 \<le> money (applyAction s ''work'' eventData rnd)"
proof -
  assume a: "0 \<le> money s"
  define gain where
    "gain = max 4000 (min 7000 (work_base_income (config s)
                  + \<lfloor>rnd * of_int (work_income_variation (config s) * 2 + 1)\<rfloor>
                  - work_income_variation (config s)))"
  have g: "4000 \<le> gain" "gain \<le> 7000" by (simp_all add: gain_def)
  have eq: "money (applyAction s ''work'' eventData rnd) =
         (case money_delta eventData of
            None \<Rightarrow> money s + gain
          | Some d \<Rightarrow>
              if d = 0 then money s + gain else max 0 (money s + gain + d))"
    by (simp add: applyAction_def resetConsecutiveNone_def gain_def Let_def
        split: option.split)
  have rng: "0 \<le> money (applyAction s ''work'' eventData rnd)"
    unfolding eq using a g by (auto split: option.split)
  from g eq rng show ?thesis by blast
qed

theorem work_gain_and_range_witness:
  "0 \<le> money (new_GameState [])
   \<and> money (applyAction (new_GameState []) ''work''
         \<lparr>affection_delta = Some 0, money_delta = Some 5000\<rparr> (9/10)) = 11600
   \<and> (\<exists>gain. 4000 \<le> gain \<and> gain \<le> 7000
         \<and> money (applyAction (new_GameState []) ''work''
               \<lparr>affection_delta = Some 0, money_delta = Some 5000\<rparr> (9/10))
             = max 0 (money (new_GameState []) + gain + 5000))"
proof -
  have m: "money (new_GameState []) = 0"
    by (simp add: new_GameState_def Let_def)
  have v: "money (applyAction (new_GameState []) ''work''
         \<lparr>affection_delta = Some 0, money_delta = Some 5000\<rparr> (9/10)) = 11600"
    by (simp add: applyAction_def resetConsecutiveNone_def Let_def new_GameState_def
        object_assign_def default_config_def)
  from work_gain_and_range [of "new_GameState []"
      "\<lparr>affection_delta = Some 0, money_delta = Some 5000\<rparr>" "9/10"] m v
  show ?thesis by simp
qed

text \<open>
  C7. The actions play and work set \<open>consecutive_none\<close> to \<open>0\<close>. The action none adds
  exactly \<open>1\<close> to it and changes nothing else by itself: without event data the state is
  otherwise the same, and with event data the affection and the money are those that the
  deltas of the event alone give from the old values.
\<close>

theorem consecutive_none_counter:
  "(actionType = ''play'' \<or> actionType = ''work'' \<longrightarrow>
      consecutive_none (applyAction s actionType eventData rnd) = 0)
   \<and> consecutive_none (applyAction s ''none'' eventData rnd) = consecutive_none s + 1
   \<and> applyAction s ''none'' no_effects rnd = s\<lparr>consecutive_none := consecutive_none s + 1\<rparr>
   \<and> affection (applyAction s ''none'' eventData rnd) =
       (case affection_delta eventData of
          None \<Rightarrow> affection s
        | Some d \<Rightarrow> if d = 0 then affection s else max 0 (min 100 (affection s + d)))
   \<and> money (applyAction s ''none'' eventData rnd) =
       (case money_delta eventData of
          None \<Rightarrow> money s
        | Some d \<Rightarrow> if d = 0 then money s else max 0 (money s + d))
   \<and> day (applyAction s ''none'' eventData rnd) = day s
   \<and> config (applyAction s ''none'' eventData rnd) = config s"
  by (simp add: applyAction_def resetConsecutiveNone_def no_effects_def Let_def
      split: option.split)

theorem consecutive_none_counter_witness:
  "consecutive_none (applyAction idle_on_last_day ''play'' no_effects (1/2)) = 0
   \<and> consecutive_none (applyAction idle_on_last_day ''work'' no_effects (1/2)) = 0
   \<and> consecutive_none (applyAction idle_on_last_day ''none'' no_effects (1/2)) = 11"
proof -
  have c: "consecutive_none idle_on_last_day = 10"
    by (simp add: idle_on_last_day_def)
  from consecutive_none_counter [of "''play''" idle_on_last_day no_effects "1/2"]
    consecutive_none_counter [of "''work''" idle_on_last_day no_effects "1/2"] c
  show ?thesis by simp
qed

section \<open>Restoring a saved state\<close>

lemma object_assign_spread: "object_assign c (spread_config c) = c"
  by (simp add: object_assign_def spread_config_def assign_property_def)

lemma setState_getState_config: "config (setState s (getState s)) = config s"
  by (simp add: setState_def getState_def updateConfig_def Let_def object_assign_spread)

lemma setState_valid_without_config:
  "config state = None \<Longrightarrow> 1 \<le> max_days (config s) \<Longrightarrow> validateState (setState s state)"
  by (simp add: setState_def validateState_def Let_def)

lemma setState_valid_iff:
  "1 \<le> max_days (config s) \<Longrightarrow>
   validateState (setState s state)
     \<longleftrightarrow> day (setState s state) \<le> max_days (config (setState s state))"
  by (simp add: setState_def validateState_def updateConfig_def Let_def
      split: option.split)

text \<open>
  C8. After \<open>setState\<close> the four fields are meant to be within the ranges that
  \<open>validateState\<close> checks, also when the restored object carries a \<open>config\<close> that
  overrides \<open>max_days\<close>. \<open>setState\<close> clamps \<open>day\<close> against the \<open>max_days\<close> in force
  before the restored \<open>config\<close> is applied: restoring day \<open>30\<close> together with
  \<open>max_days = 10\<close> into a new game leaves day \<open>30\<close> above the new \<open>max_days\<close>, and
  \<open>validateState\<close> is false. Without a restored \<open>config\<close> the ranges hold
  (\<open>setState_valid_without_config\<close>), and in general they hold exactly when the clamped
  day is within the new \<open>max_days\<close> (\<open>setState_valid_iff\<close>).
\<close>

theorem setState_clamps_to_stale_max_days:
  "day (setState (new_GameState []) stale_save) = 30
   \<and> max_days (config (setState (new_GameState []) stale_save)) = 10
   \<and> \<not> validateState (setState (new_GameState []) stale_save)"
  by (simp add: stale_save_def new_GameState_def setState_def updateConfig_def
      object_assign_def assign_property_def default_config_def validateState_def
      js_or_def Let_def)

text \<open>
  C10, as stated, fails where \<open>initial_affection\<close> is \<open>0\<close>: the default that replaces
  the falsy affection \<open>0\<close> is \<open>0\<close> again, and the round trip through \<open>getState\<close> and
  \<open>setState\<close> keeps it.
\<close>

theorem zero_affection_round_trip:
  "affection unloved_start = 0
   \<and> affection (setState unloved_start (getState unloved_start)) = 0"
  by (simp add: unloved_start_def new_GameState_def setState_def getState_def
      updateConfig_def object_assign_def assign_property_def default_config_def
      js_or_def Let_def)

text \<open>
  C10, amended. \<open>setState\<close> treats a field that is \<open>0\<close> as it treats a missing one.
  Restoring day \<open>0\<close> gives day \<open>1\<close>; restoring affection \<open>0\<close> gives
  \<open>initial_affection\<close> clamped to \<open>0\<close> and \<open>100\<close> (\<open>30\<close> with the default
  configuration); so an affection of \<open>0\<close> is lost by the round trip through \<open>getState\<close>
  and \<open>setState\<close> whenever \<open>initial_affection\<close> is positive.
\<close>

theorem setState_defaults_falsy:
  "setState s (state\<lparr>day := Some 0\<rparr>) = setState s (state\<lparr>day := None\<rparr>)
   \<and> setState s (state\<lparr>affection := Some 0\<rparr>) = setState s (state\<lparr>affection := None\<rparr>)
   \<and> setState s (state\<lparr>money := Some 0\<rparr>) = setState s (state\<lparr>money := None\<rparr>)
   \<and> setState s (state\<lparr>consecutive_none := Some 0\<rparr>)
       = setState s (state\<lparr>consecutive_none := None\<rparr>)
   \<and> day (setState s (state\<lparr>day := Some 0\<rparr>)) = 1
   \<and> affection (setState s (state\<lparr>affection := Some 0\<rparr>))
       = max 0 (min 100 (initial_affection (config s)))
   \<and> (affection s = 0 \<and> 0 < initial_affection (config s) \<longrightarrow>
        affection (setState s (getState s)) = min 100 (initial_affection (config s))
        \<and> affection (setState s (getState s)) \<noteq> affection s)"
  by (auto simp add: setState_def getState_def updateConfig_def js_or_def Let_def
      split: option.split)

theorem setState_defaults_falsy_witness:
  "affection unloved_default = 0 \<and> 0 < initial_affection (config unloved_default)
   \<and> affection (setState unloved_default (getState unloved_default)) = 30
   \<and> day (setState unloved_default ((getState unloved_default)\<lparr>day := Some 0\<rparr>)) = 1"
proof -
  have a: "affection unloved_default = 0"
    by (simp add: unloved_default_def)
  have i: "initial_affection (config unloved_default) = 30"
    by (simp add: unloved_default_def new_GameState_def object_assign_def
        default_config_def)
  have pos: "0 < initial_affection (config unloved_default)"
    using i by simp
  note falsy = setState_defaults_falsy [of unloved_default "getState unloved_default"]
  from falsy a pos
  have r: "affection (setState unloved_default (getState unloved_default))
             = min 100 (initial_affection (config unloved_default))"
    by blast
  from falsy
  have d: "day (setState unloved_default ((getState unloved_default)\<lparr>day := Some 0\<rparr>)) = 1"
    by blast
  from a pos r d i show ?thesis by simp
qed

section \<open>Event effects\<close>

lemma floor_draw_bounds:
  fixes r :: real and n :: int
  assumes "0 \<le> r" "r < 1" "0 < n"
  shows "0 \<le> \<lfloor>r * of_int n\<rfloor>" and "\<lfloor>r * of_int n\<rfloor> < n"
proof -
  from assms show "0 \<le> \<lfloor>r * of_int n\<rfloor>" by simp
  from assms have "r * of_int n < 1 * of_int n"
    by (intro mult_strict_right_mono) simp_all
  then show "\<lfloor>r * of_int n\<rfloor> < n" by (simp add: floor_less_iff)
qed

lemma getRandomVariation_bounds:
  assumes "0 \<le> rnd" "rnd < 1"
  shows "if mn = mx then getRandomVariation base mn mx rnd = base
         else min mn mx \<le> getRandomVariation base mn mx rnd
              \<and> getRandomVariation base mn mx rnd \<le> max mn mx"
proof (cases "mn = mx")
  case True
  then show ?thesis by (simp add: getRandomVariation_def)
next
  case False
  then have pos: "0 < max mn mx - min mn mx + 1" by simp
  from floor_draw_bounds [OF assms pos] False show ?thesis
    by (simp add: getRandomVariation_def Let_def)
qed

text \<open>
  C3, as stated, fails: with \<open>affection_min\<close> and \<open>affection_max\<close> both \<open>5\<close> and a base
  \<open>affection_delta\<close> of \<open>3\<close>, \<open>calculateEventEffects\<close> returns the base \<open>3\<close>, not \<open>5\<close>.
\<close>

theorem equal_bounds_return_base:
  "affection_min pinned_event = Some 5 \<and> affection_max pinned_event = Some 5
   \<and> affection_delta (calculateEventEffects (Some pinned_event) 0 0) = Some 3"
  by (simp add: pinned_event_def blank_event_def calculateEventEffects_def
      getRandomVariation_def js_or_def)

text \<open>
  C3, amended. A bound that is absent or \<open>0\<close> is replaced by the base delta (itself \<open>0\<close>
  when absent). When the two bounds that result are equal, in particular whenever
  \<open>affection_min\<close> and \<open>affection_max\<close> are equal, \<open>calculateEventEffects\<close> returns the
  base delta; when they differ, it returns an integer between the smaller and the larger
  of them, both included, for every draw. The same holds for the money delta.
\<close>

theorem event_effects_within_bounds:
  "0 \<le> rnd_a \<Longrightarrow> rnd_a < 1 \<Longrightarrow> 0 \<le> rnd_m \<Longrightarrow> rnd_m < 1 \<Longrightarrow>
   (let base = js_or (affection_delta e) 0;
        lo = js_or (affection_min e) base;
        hi = js_or (affection_max e) base
    in \<exists>v. affection_delta (calculateEventEffects (Some e) rnd_a rnd_m) = Some v
           \<and> (if lo = hi then v = base else min lo hi \<le> v \<and> v \<le> max lo hi))
   \<and> (let base = js_or (money_delta e) 0;
          lo = js_or (money_min e) base;
          hi = js_or (money_max e) base
      in \<exists>v. money_delta (calculateEventEffects (Some e) rnd_a rnd_m) = Some v
             \<and> (if lo = hi then v = base else min lo hi \<le> v \<and> v \<le> max lo hi))"
proof -
  assume a: "0 \<le> rnd_a" "rnd_a < 1" and m: "0 \<le> rnd_m" "rnd_m < 1"
  show ?thesis
    using getRandomVariation_bounds [OF a, of "js_or (affection_min e) (js_or (affection_delta e) 0)"
        "js_or (affection_max e) (js_or (affection_delta e) 0)" "js_or (affection_delta e) 0"]
      getRandomVariation_bounds [OF m, of "js_or (money_min e) (js_or (money_delta e) 0)"
        "js_or (money_max e) (js_or (money_delta e) 0)" "js_or (money_delta e) 0"]
    by (simp add: calculateEventEffects_def Let_def)
qed

theorem event_effects_within_bounds_witness:
  "(0::real) \<le> 9/10 \<and> (9/10::real) < 1
   \<and> affection_min ranged_event = Some 2 \<and> affection_max ranged_event = Some 8
   \<and> (\<exists>v. affection_delta (calculateEventEffects (Some ranged_event) (9/10) 0) = Some v
          \<and> 2 \<le> v \<and> v \<le> 8)
   \<and> money_delta (calculateEventEffects (Some ranged_event) (9/10) 0) = Some 0"
  using event_effects_within_bounds [of "9/10" 0 ranged_event]
  by (simp add: ranged_event_def blank_event_def js_or_def)

section \<open>Event selection\<close>

lemma subtract_weights_mem: "subtract_weights rv es = Some e \<Longrightarrow> e \<in> set es"
  by (induction es arbitrary: rv) (auto split: if_splits)

lemma selectWeightedRandom_mem:
  assumes ne: "evs \<noteq> []" and r: "0 \<le> rnd" "rnd < 1"
  shows "\<exists>e\<in>set evs. selectWeightedRandom evs rnd = Some e
           \<or> (type (hd evs) = ''play'' \<and> special e
               \<and> selectWeightedRandom evs rnd = Some (e\<lparr>weight := weight e * 1.2\<rparr>))"
proof -
  define adjusted where
    "adjusted = (if type (hd evs) = ''play'' then
                  map (\<lambda>e. e\<lparr>weight := (if special e then weight e * 1.2 else weight e)\<rparr>)
                      evs
                else evs)"
  define total where "total = foldl (\<lambda>sum e. sum + weight e) 0 adjusted"
  have adj_ne: "adjusted \<noteq> []" using ne by (simp add: adjusted_def)
  have adj: "\<exists>e\<in>set evs. a = e
               \<or> (type (hd evs) = ''play'' \<and> special e \<and> a = e\<lparr>weight := weight e * 1.2\<rparr>)"
    if "a \<in> set adjusted" for a
  proof (cases "type (hd evs) = ''play''")
    case False
    with that show ?thesis by (auto simp: adjusted_def)
  next
    case True
    with that obtain e where e: "e \<in> set evs"
      and a: "a = e\<lparr>weight := (if special e then weight e * 1.2 else weight e)\<rparr>"
      by (auto simp: adjusted_def)
    show ?thesis
    proof (cases "special e")
      case True
      with e a \<open>type (hd evs) = ''play''\<close> show ?thesis by auto
    next
      case False
      with a have "a = e" by simp
      with e show ?thesis by auto
    qed
  qed
  show ?thesis
  proof (cases "total \<le> 0")
    case True
    have len: "0 < int (length evs)" using ne by simp
    from floor_draw_bounds [OF r len]
    have i: "0 \<le> \<lfloor>rnd * of_nat (length evs)\<rfloor>" "\<lfloor>rnd * of_nat (length evs)\<rfloor> < int (length evs)"
      by simp_all
    then have sel: "selectWeightedRandom evs rnd = Some (evs ! nat \<lfloor>rnd * of_nat (length evs)\<rfloor>)"
      using ne True
      by (simp add: selectWeightedRandom_def Let_def adjusted_def [symmetric]
          total_def [symmetric])
    from i have "evs ! nat \<lfloor>rnd * of_nat (length evs)\<rfloor> \<in> set evs"
      by (intro nth_mem) linarith
    with sel show ?thesis by auto
  next
    case False
    then have sel: "selectWeightedRandom evs rnd =
        (case subtract_weights (rnd * total) adjusted of
           Some e \<Rightarrow> Some e | None \<Rightarrow> Some (last adjusted))"
      using ne
      by (simp add: selectWeightedRandom_def Let_def adjusted_def [symmetric]
          total_def [symmetric])
    obtain a where a: "a \<in> set adjusted" "selectWeightedRandom evs rnd = Some a"
    proof (cases "subtract_weights (rnd * total) adjusted")
      case None
      with sel adj_ne that [of "last adjusted"] show ?thesis by simp
    next
      case (Some e)
      with sel subtract_weights_mem [OF Some] that [of e] show ?thesis by simp
    qed
    from adj [OF a(1)] a(2) show ?thesis by auto
  qed
qed

text \<open>
  C4. Days of the game run from \<open>1\<close> to \<open>max_days\<close>. With a loaded catalog, on a day
  from \<open>1\<close> on and for any draw: if an event of the action type has \<open>day_specific\<close>
  equal to the day, \<open>pickEvent\<close> selects from exactly the events of that type with that
  \<open>day_specific\<close> value and returns one of them, never an event without that value. The
  event returned has the type and the \<open>day_specific\<close> value and agrees with an event of
  the catalog in every field other than \<open>weight\<close>; its \<open>weight\<close> is the one of the
  catalog or, only for a special event of type play, that weight times \<open>1.2\<close>
  (\<open>selectWeightedRandom\<close> returns its reweighted copy there).
\<close>

theorem day_specific_events_preempt:
  assumes loaded: "isLoaded sys" and day: "1 \<le> d" and r: "0 \<le> rnd" "rnd < 1"
    and ex: "\<exists>e\<in>set (events sys). type e = ty \<and> day_specific e = Some d"
  shows "pickEvent sys ty d rnd =
           selectWeightedRandom
             (filter (\<lambda>e. type e = ty \<and> day_specific e = Some d) (events sys)) rnd
         \<and> (\<exists>e\<in>set (events sys). \<exists>picked.
               type e = ty \<and> day_specific e = Some d
               \<and> pickEvent sys ty d rnd = Some picked
               \<and> type picked = ty \<and> day_specific picked = Some d
               \<and> picked = e\<lparr>weight := weight picked\<rparr>
               \<and> (weight picked = weight e
                   \<or> (ty = ''play'' \<and> special e \<and> weight picked = weight e * 1.2)))"
proof -
  define typeEvents where "typeEvents = filter (\<lambda>e. type e = ty) (events sys)"
  define daySpecificEvents where
    "daySpecificEvents =
       filter (\<lambda>e. truthy (day_specific e) \<and> day_specific e = Some d) typeEvents"
  from day have pool: "daySpecificEvents =
      filter (\<lambda>e. type e = ty \<and> day_specific e = Some d) (events sys)"
    by (auto simp: daySpecificEvents_def typeEvents_def truthy_def intro: filter_cong)
  have mem: "e \<in> set daySpecificEvents \<longleftrightarrow>
               e \<in> set (events sys) \<and> type e = ty \<and> day_specific e = Some d" for e
    by (auto simp: pool)
  from ex mem have ne: "daySpecificEvents \<noteq> []" by (auto simp: filter_empty_conv)
  then have tne: "typeEvents \<noteq> []" by (auto simp: daySpecificEvents_def)
  have pick: "pickEvent sys ty d rnd = selectWeightedRandom daySpecificEvents rnd"
    using loaded ne tne
    by (simp add: pickEvent_def Let_def typeEvents_def [symmetric]
        daySpecificEvents_def [symmetric])
  from ne have "hd daySpecificEvents \<in> set daySpecificEvents" by simp
  with mem have hd_ty: "type (hd daySpecificEvents) = ty" by simp
  from selectWeightedRandom_mem [OF ne r] obtain e where
    e: "e \<in> set daySpecificEvents"
    and sel: "selectWeightedRandom daySpecificEvents rnd = Some e
           \<or> (type (hd daySpecificEvents) = ''play'' \<and> special e
               \<and> selectWeightedRandom daySpecificEvents rnd
                   = Some (e\<lparr>weight := weight e * 1.2\<rparr>))"
    by blast
  from e mem have cat: "e \<in> set (events sys)" "type e = ty" "day_specific e = Some d"
    by simp_all
  from sel have "\<exists>picked. pickEvent sys ty d rnd = Some picked
               \<and> type picked = ty \<and> day_specific picked = Some d
               \<and> picked = e\<lparr>weight := weight picked\<rparr>
               \<and> (weight picked = weight e
                   \<or> (ty = ''play'' \<and> special e \<and> weight picked = weight e * 1.2))"
  proof
    assume "selectWeightedRandom daySpecificEvents rnd = Some e"
    with pick cat show ?thesis by simp
  next
    assume "type (hd daySpecificEvents) = ''play'' \<and> special e
               \<and> selectWeightedRandom daySpecificEvents rnd
                   = Some (e\<lparr>weight := weight e * 1.2\<rparr>)"
    with pick cat hd_ty show ?thesis by simp
  qed
  with cat pick pool show ?thesis by auto
qed

theorem day_specific_events_preempt_witness:
  "isLoaded day_five_catalog \<and> (1::int) \<le> 5 \<and> (0::real) \<le> 1/2 \<and> (1/2::real) < 1
   \<and> (\<exists>e\<in>set (events day_five_catalog). type e = ''play'' \<and> day_specific e = Some 5)
   \<and> (\<exists>e\<in>set (events day_five_catalog). \<exists>picked.
         type e = ''play'' \<and> day_specific e = Some 5
         \<and> pickEvent day_five_catalog ''play'' 5 (1/2) = Some picked
         \<and> type picked = ''play'' \<and> day_specific picked = Some 5
         \<and> picked = e\<lparr>weight := weight picked\<rparr>)
   \<and> pickEvent day_five_catalog ''play'' 5 (1/2)
       = Some ((events day_five_catalog ! 1)\<lparr>weight := 6\<rparr>)
   \<and> pickEvent day_five_catalog ''work'' 5 (1/2) = Some (events day_five_catalog ! 2)"
proof -
  have loaded: "isLoaded day_five_catalog" by (simp add: day_five_catalog_def)
  have ex: "\<exists>e\<in>set (events day_five_catalog). type e = ''play'' \<and> day_specific e = Some 5"
    by (simp add: day_five_catalog_def blank_event_def)
  have copy: "pickEvent day_five_catalog ''play'' 5 (1/2)
                = Some ((events day_five_catalog ! 1)\<lparr>weight := 6\<rparr>)"
    by (simp add: day_five_catalog_def blank_event_def pickEvent_def
        selectWeightedRandom_def truthy_def Let_def)
  have work: "pickEvent day_five_catalog ''work'' 5 (1/2) = Some (events day_five_catalog ! 2)"
    by (simp add: day_five_catalog_def blank_event_def pickEvent_def
        selectWeightedRandom_def truthy_def Let_def)
  from day_specific_events_preempt [OF loaded _ _ _ ex, of "1/2"]
  have "\<exists>e\<in>set (events day_five_catalog). \<exists>picked.
         type e = ''play'' \<and> day_specific e = Some 5
         \<and> pickEvent day_five_catalog ''play'' 5 (1/2) = Some picked
         \<and> type picked = ''play'' \<and> day_specific picked = Some 5
         \<and> picked = e\<lparr>weight := weight picked\<rparr>"
    by fastforce
  with loaded ex copy work show ?thesis by simp
qed

end
